theory Spec2Isabelle
  imports Main "HOL-Library.Sublist"
begin

section \<open>JavaScript values, objects and React elements\<close>

text \<open>
  A JavaScript string is modelled as the list of its code units (\<^typ>\<open>string\<close>).
  The two characters of the source outside ASCII (the bullet of the metadata line and the
  vertical ellipsis of the menu button) are written as the bytes the source file holds.

  A value is \<open>undefined\<close>, a string, or anything else (a number, a handler, a child
  element), which the two components only pass on.
\<close>

datatype 'a jsval = Undefined | Str string | Other 'a

text \<open>An object is a finite map from property names to values.\<close>

type_synonym 'a obj = "string \<rightharpoonup> 'a jsval"

text \<open>Reading \<open>o.k\<close>: a missing property reads as \<open>undefined\<close>.\<close>

definition get_prop :: "'a obj \<Rightarrow> string \<Rightarrow> 'a jsval" where
  "get_prop ob k = (case ob k of None \<Rightarrow> Undefined | Some v \<Rightarrow> v)"

text \<open>
  \<open>s[i]\<close> on a string: the one-unit string at index \<open>i\<close>, or \<open>undefined\<close> when
  \<open>i\<close> is out of range (JavaScript does not throw there).
\<close>

definition js_index :: "string \<Rightarrow> nat \<Rightarrow> string option" where
  "js_index s i = (if i < length s then Some [s ! i] else None)"

text \<open>
  What a JSX expression evaluates to: a text child, an \<open>undefined\<close> child (React
  renders nothing for it), or an element with its type, its props and the children written
  inside it. Children handed over as a \<open>children\<close> property stay among the props.
\<close>

datatype 'a node =
    Text string
  | Undef
  | Elem string "'a obj" "'a node list"

text \<open>A JSX child \<open>{e}\<close> for an \<open>e\<close> that is a string or \<open>undefined\<close> (\<open>None\<close>).\<close>

fun child :: "string option \<Rightarrow> 'a node" where
  "child (Some s) = Text s"
| "child None = Undef"

subsection \<open>Queries on a rendered tree\<close>

text \<open>The elements of a given type, in document order.\<close>

fun elements :: "string \<Rightarrow> 'a node \<Rightarrow> 'a node list" where
  "elements t (Text s) = []"
| "elements t Undef = []"
| "elements t (Elem u ps cs) =
     (if u = t then [Elem u ps cs] else []) @ concat (map (elements t) cs)"

fun props_of :: "'a node \<Rightarrow> 'a obj" where
  "props_of (Elem u ps cs) = ps"
| "props_of n = Map.empty"

fun children_of :: "'a node \<Rightarrow> 'a node list" where
  "children_of (Elem u ps cs) = cs"
| "children_of n = []"

text \<open>The text content of a tree: its text children, in document order.\<close>

fun texts :: "'a node \<Rightarrow> string list" where
  "texts (Text s) = [s]"
| "texts Undef = []"
| "texts (Elem u ps cs) = concat (map texts cs)"

text \<open>Whether an \<open>undefined\<close> child occurs anywhere in a tree.\<close>

fun has_undef :: "'a node \<Rightarrow> bool" where
  "has_undef (Text s) = False"
| "has_undef Undef = True"
| "has_undef (Elem u ps cs) = list_ex has_undef cs"

section \<open>VideoCard\<close>

record VideoCardProps =
  id' :: string
  title :: string
  channelName :: string
  views :: string
  timePosted :: string
  duration :: string
  channelId :: string

text \<open>
  The state of a mounted \<open>VideoCard\<close>: the \<open>thumbnail\<close> of \<open>useState\<close>, and the
  dependency array \<open>[id]\<close> the effect last ran with (none before the first commit).
\<close>

record VideoCardState =
  thumbnail :: string
  effect_deps :: "string option"

text \<open>\<open>useState("")\<close>, before any effect has run.\<close>

definition initial :: VideoCardState where
  "initial = \<lparr>thumbnail = '''', effect_deps = None\<rparr>"

text \<open>
  \<open>useEffect(() => { setThumbnail(`https://picsum.photos/200/300?random=${id}`) }, [id])\<close>:
  after a commit the effect runs when it never ran or \<open>id\<close> differs from the last run.
\<close>

definition run_effects :: "VideoCardProps \<Rightarrow> VideoCardState \<Rightarrow> VideoCardState" where
  "run_effects p s =
     (if effect_deps s = Some (id' p) then s
      else \<lparr>thumbnail = ''https://picsum.photos/200/300?random='' @ id' p,
            effect_deps = Some (id' p)\<rparr>)"

text \<open>The JSX returned by \<open>VideoCard\<close>, for given props and a given value of \<open>thumbnail\<close>.\<close>

definition VideoCard_jsx :: "VideoCardProps \<Rightarrow> string \<Rightarrow> 'a node" where
  "VideoCard_jsx p thumb =
     Elem ''Card'' [''className'' \<mapsto> Str ''overflow-hidden group'']
      [Elem ''CardContent'' [''className'' \<mapsto> Str ''p-0'']
        [Elem ''div'' [''className'' \<mapsto> Str ''relative'']
          [Elem ''img''
             [''src'' \<mapsto> Str thumb,
              ''alt'' \<mapsto> Str (title p),
              ''className'' \<mapsto> Str ''w-full aspect-video object-cover''] [],
           Elem ''span''
             [''className'' \<mapsto>
                Str ''absolute bottom-2 right-2 bg-black/80 text-white text-xs px-1 rounded'']
             [Text (duration p)]],
         Elem ''div'' [''className'' \<mapsto> Str ''p-3 flex gap-3'']
          [Elem ''Avatar'' [''className'' \<mapsto> Str ''h-9 w-9'']
            [Elem ''AvatarImage''
               [''src'' \<mapsto> Str (''https://i.pravatar.cc/300?u='' @ channelId p)] [],
             Elem ''AvatarFallback'' Map.empty [child (js_index (channelName p) 0)]],
           Elem ''div'' [''className'' \<mapsto> Str ''flex-1'']
            [Elem ''h3'' [''className'' \<mapsto> Str ''font-semibold line-clamp-2 mb-1'']
               [Text (title p)],
             Elem ''p'' [''className'' \<mapsto> Str ''text-sm text-muted-foreground'']
               [Text (channelName p)],
             Elem ''div'' [''className'' \<mapsto> Str ''text-sm text-muted-foreground'']
               [Text (views p),
                Text ('' views '' @ [CHR 0xE2, CHR 0x80, CHR 0xA2] @ '' ''),
                Text (timePosted p)]],
           Elem ''Button''
             [''variant'' \<mapsto> Str ''ghost'',
              ''size'' \<mapsto> Str ''icon'',
              ''className'' \<mapsto>
                Str ''h-8 w-8 opacity-0 group-hover:opacity-100 transition-opacity'']
             [Text [CHR 0xE2, CHR 0x8B, CHR 0xAE]]]]]"

text \<open>One render of the component: the JSX for the current \<open>thumbnail\<close>.\<close>

definition VideoCard :: "VideoCardProps \<Rightarrow> VideoCardState \<Rightarrow> 'a node" where
  "VideoCard p s = VideoCard_jsx p (thumbnail s)"

text \<open>
  The output at a given point of the mount: the first render (the effect has not run) or
  the render that follows the mount effect.
\<close>

definition VideoCard_output :: "VideoCardProps \<Rightarrow> bool \<Rightarrow> 'a node" where
  "VideoCard_output p effect_done =
     VideoCard p (if effect_done then run_effects p initial else initial)"

text \<open>The \<open>src\<close> of every \<open>img\<close> of a tree, and of every \<open>AvatarImage\<close>.\<close>

definition img_srcs :: "'a node \<Rightarrow> 'a jsval list" where
  "img_srcs n = map (\<lambda>e. get_prop (props_of e) ''src'') (elements ''img'' n)"

definition avatar_srcs :: "'a node \<Rightarrow> 'a jsval list" where
  "avatar_srcs n = map (\<lambda>e. get_prop (props_of e) ''src'') (elements ''AvatarImage'' n)"

text \<open>
  The synchronous variant the specification compares with: the same component with
  \<open>thumbnail\<close> assigned during render, with no state and no effect.
\<close>

definition VideoCard_sync :: "VideoCardProps \<Rightarrow> 'a node" where
  "VideoCard_sync p =
     (let thumb = ''https://picsum.photos/200/300?random='' @ id' p
      in VideoCard_jsx p thumb)"

text \<open>The state of an instance that was mounted and then committed with each props of a history.\<close>

definition after_commits :: "VideoCardProps list \<Rightarrow> VideoCardState" where
  "after_commits hs = fold run_effects hs initial"

text \<open>The \<open>id\<close> an instance was last committed with; none for a fresh mount.\<close>

definition previous_id :: "VideoCardProps list \<Rightarrow> string option" where
  "previous_id hs = (if hs = [] then None else Some (id' (last hs)))"

text \<open>
  A run of the component: the instance has been committed with the props of a history
  (empty for a fresh mount) and is then rendered with props \<open>p\<close>, the effect of this
  render being still pending or completed.
\<close>

definition VideoCard_run :: "VideoCardProps list \<Rightarrow> VideoCardProps \<Rightarrow> bool \<Rightarrow> 'a node" where
  "VideoCard_run hs p effect_done =
     VideoCard p (if effect_done then run_effects p (after_commits hs) else after_commits hs)"

text \<open>What every state reached by commits satisfies: the thumbnail is the URL of the last deps.\<close>

definition effect_inv :: "VideoCardState \<Rightarrow> bool" where
  "effect_inv s =
     (case effect_deps s of
        None \<Rightarrow> True
      | Some i \<Rightarrow> thumbnail s = ''https://picsum.photos/200/300?random='' @ i)"

text \<open>The precondition "every display string is non-empty" of the data model.\<close>

definition non_empty_props :: "VideoCardProps \<Rightarrow> bool" where
  "non_empty_props p =
     (id' p \<noteq> [] \<and> title p \<noteq> [] \<and> channelName p \<noteq> [] \<and> views p \<noteq> []
      \<and> timePosted p \<noteq> [] \<and> duration p \<noteq> [] \<and> channelId p \<noteq> [])"

section \<open>SafeButton\<close>

text \<open>
  Modelled from the spec: \<open>cn\<close> of \<open>@/lib/utils\<close>, which is not among the sources. The
  specification says that the static class list is merged into the class list and is always
  included in it: the class strings of the arguments are joined in order by single spaces;
  an argument that is \<open>undefined\<close>, empty or not a string gives no class.
\<close>

fun cn :: "'a jsval list \<Rightarrow> string" where
  "cn [] = []"
| "cn (Str s # vs) =
     (if s = [] then cn vs else if cn vs = [] then s else s @ '' '' @ cn vs)"
| "cn (v # vs) = cn vs"

text \<open>
  \<open>({ className, variant, ...props }) =>
     <Button className={cn("font-semibold transition-all", className)}
             variant={variant} {...props} />\<close>

  The parameter destructures the props object: \<open>className\<close> and \<open>variant\<close> are read
  (\<open>undefined\<close> when missing) and \<open>props\<close> is the object without these two keys. The
  element's props are built left to right, a later property replacing an earlier one of the
  same name, so the spread comes last. \<open>cn\<close> is a parameter of the model.
\<close>

definition SafeButton :: "('a jsval list \<Rightarrow> string) \<Rightarrow> 'a obj \<Rightarrow> 'a node" where
  "SafeButton cn_impl sprops =
     (let className = get_prop sprops ''className'';
          variant = get_prop sprops ''variant'';
          props = sprops |` (- {''className'', ''variant''})
      in Elem ''Button''
           ([''className'' \<mapsto> Str (cn_impl [Str ''font-semibold transition-all'', className]),
             ''variant'' \<mapsto> variant] ++ props)
           [])"

section \<open>The configuration object\<close>

text \<open>An object literal of constants: booleans, strings, arrays and nested objects.\<close>

datatype jsconst =
    CBool bool
  | CStr string
  | CArr "jsconst list"
  | CObj "(string \<times> jsconst) list"

definition nextConfig :: jsconst where
  "nextConfig =
     CObj [(''reactStrictMode'', CBool True),
           (''images'', CObj [(''domains'', CArr [CStr ''i.pravatar.cc'', CStr ''picsum.photos''])]),
           (''compiler'', CObj [(''styledComponents'', CBool True)])]"

fun entries :: "jsconst \<Rightarrow> (string \<times> jsconst) list" where
  "entries (CObj es) = es"
| "entries c = []"

definition field :: "string \<Rightarrow> jsconst \<Rightarrow> jsconst option" where
  "field k c = map_of (entries c) k"

text \<open>The strings of an array.\<close>

fun strings_of :: "jsconst \<Rightarrow> string list" where
  "strings_of (CArr xs) = concat (map (\<lambda>x. case x of CStr s \<Rightarrow> [s] | _ \<Rightarrow> []) xs)"
| "strings_of c = []"

text \<open>The boolean properties of an object itself.\<close>

definition own_flags :: "jsconst \<Rightarrow> (string \<times> bool) list" where
  "own_flags c =
     concat (map (\<lambda>e. case snd e of CBool b \<Rightarrow> [(fst e, b)] | _ \<Rightarrow> []) (entries c))"

text \<open>Every boolean property of an object and of the objects nested in it, with its path.\<close>

fun all_flags :: "jsconst \<Rightarrow> (string list \<times> bool) list" where
  "all_flags (CBool b) = [([], b)]"
| "all_flags (CStr s) = []"
| "all_flags (CArr xs) = []"
| "all_flags (CObj es) =
     concat (map (\<lambda>e. map (\<lambda>f. (fst e # fst f, snd f)) (all_flags (snd e))) es)"

text \<open>\<open>images.domains\<close>, the allow-list of remote image hosts.\<close>

definition image_hosts :: "jsconst \<Rightarrow> string list" where
  "image_hosts c =
     (case field ''images'' c of
        None \<Rightarrow> []
      | Some im \<Rightarrow> (case field ''domains'' im of None \<Rightarrow> [] | Some d \<Rightarrow> strings_of d))"

text \<open>The flags of the \<open>compiler\<close> section.\<close>

definition compiler_flags :: "jsconst \<Rightarrow> (string \<times> bool) list" where
  "compiler_flags c = (case field ''compiler'' c of None \<Rightarrow> [] | Some k \<Rightarrow> own_flags k)"

section \<open>Properties of VideoCard\<close>

lemma elements_child [simp]: "elements t (child x) = []"
  by (cases x) simp_all

lemma img_srcs_jsx: "img_srcs (VideoCard_jsx p t) = [Str t]"
  by (simp add: img_srcs_def VideoCard_jsx_def get_prop_def)

lemma js_index_first: "s \<noteq> [] \<Longrightarrow> js_index s 0 = Some [hd s]"
  by (simp add: js_index_def hd_conv_nth)

text \<open>Without a channel name the fallback child is \<open>undefined\<close>; the render still returns.\<close>

lemma has_undef_jsx: "has_undef (VideoCard_jsx p t) = (channelName p = [])"
  by (simp add: VideoCard_jsx_def js_index_def)

text \<open>
  C9: on the first render, before the mount effect has run, the thumbnail \<open>img\<close> has the
  empty string as its \<open>src\<close>, whatever the props.
\<close>

theorem first_render_src_empty:
  "img_srcs (VideoCard p initial) = [Str '''']"
  by (simp add: VideoCard_def img_srcs_jsx initial_def)

text \<open>
  C1: after the mount effect has run, the \<open>src\<close> of the thumbnail \<open>img\<close> is the template
  \<open>https://picsum.photos/200/300?random={id}\<close> with the \<open>id\<close> of the props.
\<close>

theorem mount_sets_thumbnail:
  "img_srcs (VideoCard p (run_effects p initial))
     = [Str (''https://picsum.photos/200/300?random='' @ id' p)]"
  by (simp add: VideoCard_def img_srcs_jsx run_effects_def initial_def)

text \<open>
  C2: every render contains the title, the channel name, the views and the duration of the
  props unchanged as text: each is a text child of the tree, the title the only child of
  the \<open>h3\<close>, the channel name of the \<open>p\<close>, the duration of the \<open>span\<close>, and the views a
  child of a \<open>div\<close>.
\<close>

theorem renders_strings_verbatim:
  "title p \<in> set (texts (VideoCard p s :: 'a node))
   \<and> channelName p \<in> set (texts (VideoCard p s :: 'a node))
   \<and> views p \<in> set (texts (VideoCard p s :: 'a node))
   \<and> duration p \<in> set (texts (VideoCard p s :: 'a node))
   \<and> map children_of (elements ''h3'' (VideoCard p s :: 'a node)) = [[Text (title p)]]
   \<and> map children_of (elements ''p'' (VideoCard p s :: 'a node)) = [[Text (channelName p)]]
   \<and> map children_of (elements ''span'' (VideoCard p s :: 'a node)) = [[Text (duration p)]]
   \<and> Text (views p)
       \<in> set (concat (map children_of (elements ''div'' (VideoCard p s :: 'a node))))"
  by (simp add: VideoCard_def VideoCard_jsx_def)

text \<open>
  C3: in every render the \<open>src\<close> of the avatar image is
  \<open>https://i.pravatar.cc/300?u=\<close> followed by the \<open>channelId\<close> of the props.
\<close>

theorem avatar_src:
  "avatar_srcs (VideoCard p s) = [Str (''https://i.pravatar.cc/300?u='' @ channelId p)]"
  by (simp add: avatar_srcs_def VideoCard_def VideoCard_jsx_def get_prop_def)

text \<open>
  C4, as stated: the output of the component equals that of the synchronous variant at
  every render, the first one included. It fails at the first render of the props below:
  the \<open>img\<close> has the empty \<open>src\<close> there, and the URL in the synchronous variant.
\<close>

theorem first_render_differs_from_sync:
  "(VideoCard_output
      \<lparr>id' = ''1'', title = ''Intro'', channelName = ''Chan'', views = ''10K'',
      timePosted = ''2 days ago'', duration = ''3:45'', channelId = ''c1''\<rparr> False :: unit node)
   \<noteq> VideoCard_sync
      \<lparr>id' = ''1'', title = ''Intro'', channelName = ''Chan'', views = ''10K'',
      timePosted = ''2 days ago'', duration = ''3:45'', channelId = ''c1''\<rparr>"
proof
  let ?p = "\<lparr>id' = ''1'', title = ''Intro'', channelName = ''Chan'', views = ''10K'',
      timePosted = ''2 days ago'', duration = ''3:45'', channelId = ''c1''\<rparr>"
  assume "(VideoCard_output ?p False :: unit node) = VideoCard_sync ?p"
  then have "img_srcs (VideoCard_output ?p False :: unit node)
               = img_srcs (VideoCard_sync ?p :: unit node)"
    by simp
  then show False
    by (simp add: VideoCard_output_def VideoCard_sync_def VideoCard_def initial_def img_srcs_jsx)
qed

text \<open>
  C4, amended: the render that follows the mount effect equals the output of the
  synchronous variant; the first render is the same JSX with the empty string as thumbnail.
\<close>

theorem after_effect_equals_sync:
  "(VideoCard_output p True :: 'a node) = VideoCard_sync p
   \<and> (VideoCard_output p False :: 'a node) = VideoCard_jsx p []"
  by (simp add: VideoCard_output_def VideoCard_sync_def VideoCard_def run_effects_def initial_def)

text \<open>
  C7: when every display string of the props is non-empty, \<open>channelName[0]\<close> is defined
  (the first unit of the channel name), it is the child of the avatar fallback, and no
  \<open>undefined\<close> child occurs in the render.
\<close>

theorem fallback_initial_defined:
  "non_empty_props p \<Longrightarrow>
     js_index (channelName p) 0 = Some [hd (channelName p)]
     \<and> map children_of (elements ''AvatarFallback'' (VideoCard p s :: 'a node))
         = [[Text [hd (channelName p)]]]
     \<and> \<not> has_undef (VideoCard p s :: 'a node)"
proof -
  assume "non_empty_props p"
  then have ne: "channelName p \<noteq> []"
    by (simp add: non_empty_props_def)
  then have "js_index (channelName p) 0 = Some [hd (channelName p)]"
    by (rule js_index_first)
  moreover from this
  have "map children_of (elements ''AvatarFallback'' (VideoCard p s :: 'a node))
          = [[Text [hd (channelName p)]]]"
    by (simp add: VideoCard_def VideoCard_jsx_def)
  moreover have "\<not> has_undef (VideoCard p s :: 'a node)"
    using ne by (simp add: VideoCard_def has_undef_jsx)
  ultimately show ?thesis by simp
qed

theorem fallback_initial_defined_witness:
  "non_empty_props
     \<lparr>id' = ''1'', title = ''Intro'', channelName = ''Chan'', views = ''10K'',
      timePosted = ''2 days ago'', duration = ''3:45'', channelId = ''c1''\<rparr>
   \<and> js_index ''Chan'' 0 = Some ''C''
   \<and> \<not> has_undef (VideoCard
         \<lparr>id' = ''1'', title = ''Intro'', channelName = ''Chan'', views = ''10K'',
      timePosted = ''2 days ago'', duration = ''3:45'', channelId = ''c1''\<rparr>
         initial :: unit node)"
proof -
  let ?p = "\<lparr>id' = ''1'', title = ''Intro'', channelName = ''Chan'', views = ''10K'',
      timePosted = ''2 days ago'', duration = ''3:45'', channelId = ''c1''\<rparr>"
  have h: "non_empty_props ?p"
    by (simp add: non_empty_props_def)
  show ?thesis
    using h fallback_initial_defined [OF h, of initial, where ?'a = unit] by simp
qed

section \<open>Properties of SafeButton\<close>

lemma cn_static_prefix: "s \<noteq> [] \<Longrightarrow> prefix s (cn (Str s # vs))"
  by simp

lemma SafeButton_props:
  "props_of (SafeButton f sp) =
     [''className'' \<mapsto> Str (f [Str ''font-semibold transition-all'', get_prop sp ''className'']),
      ''variant'' \<mapsto> get_prop sp ''variant''] ++ (sp |` (- {''className'', ''variant''}))"
  by (simp add: SafeButton_def)

lemma SafeButton_className:
  "props_of (SafeButton f sp) ''className''
     = Some (Str (f [Str ''font-semibold transition-all'', get_prop sp ''className'']))"
  by (simp add: SafeButton_props map_add_def restrict_map_def)

lemma SafeButton_variant:
  "props_of (SafeButton f sp) ''variant'' = Some (get_prop sp ''variant'')"
  by (simp add: SafeButton_props map_add_def restrict_map_def)

lemma SafeButton_other:
  "k \<noteq> ''className'' \<Longrightarrow> k \<noteq> ''variant'' \<Longrightarrow> props_of (SafeButton f sp) k = sp k"
  by (simp add: SafeButton_props map_add_def restrict_map_def split: option.splits)

lemma SafeButton_dom:
  "dom (props_of (SafeButton f sp)) = dom sp \<union> {''className'', ''variant''}"
  by (auto simp: SafeButton_props map_add_def restrict_map_def dom_def
           split: option.splits if_splits)

text \<open>
  C5: whatever the variant is (a value of the enumeration, any other value, or none),
  the \<open>Button\<close> receives it unchanged; and whatever \<open>className\<close> is, the class list the
  \<open>Button\<close> receives contains \<open>font-semibold\<close> and \<open>transition-all\<close>.
\<close>

theorem SafeButton_variant_and_static_classes:
  "get_prop (props_of (SafeButton cn sp)) ''variant'' = get_prop sp ''variant''
   \<and> props_of (SafeButton cn (sp(''variant'' \<mapsto> v))) ''variant'' = Some v
   \<and> (\<exists>c. props_of (SafeButton cn sp) ''className'' = Some (Str c)
          \<and> sublist ''font-semibold'' c \<and> sublist ''transition-all'' c)"
proof -
  let ?static = "''font-semibold transition-all''"
  let ?c = "cn [Str ?static, get_prop sp ''className'']"
  have pre: "prefix ?static ?c"
    by (rule cn_static_prefix) simp
  have s1: "sublist ''font-semibold'' ?static"
    using sublist_append_rightI [of "''font-semibold''" "'' transition-all''"] by simp
  have s2: "sublist ''transition-all'' ?static"
    using sublist_append_leftI [of "''transition-all''" "''font-semibold ''"] by simp
  have "sublist ?static ?c"
    using pre by (rule prefix_imp_sublist)
  then have "sublist ''font-semibold'' ?c" "sublist ''transition-all'' ?c"
    using s1 s2 sublist_order.order_trans by blast+
  moreover have "props_of (SafeButton cn sp) ''className'' = Some (Str ?c)"
    by (rule SafeButton_className)
  moreover have "get_prop (props_of (SafeButton cn sp)) ''variant'' = get_prop sp ''variant''"
    by (simp add: get_prop_def SafeButton_variant)
  moreover have "props_of (SafeButton cn (sp(''variant'' \<mapsto> v))) ''variant'' = Some v"
    by (simp add: SafeButton_variant get_prop_def)
  ultimately show ?thesis by blast
qed

text \<open>
  C6: \<open>SafeButton\<close> returns one \<open>Button\<close> element and nothing else. Every property other
  than \<open>className\<close> and \<open>variant\<close> reaches the \<open>Button\<close> as it was given, none is dropped
  and none is added; \<open>className\<close> is the merge of the static class list with the given
  one, and \<open>variant\<close> is the given one. This holds for any class merge.
\<close>

theorem SafeButton_frame:
  "SafeButton f sp = Elem ''Button'' (props_of (SafeButton f sp)) []
   \<and> (\<forall>k. k \<noteq> ''className'' \<and> k \<noteq> ''variant'' \<longrightarrow> props_of (SafeButton f sp) k = sp k)
   \<and> dom (props_of (SafeButton f sp)) = dom sp \<union> {''className'', ''variant''}
   \<and> props_of (SafeButton f sp) ''className''
        = Some (Str (f [Str ''font-semibold transition-all'', get_prop sp ''className'']))
   \<and> props_of (SafeButton f sp) ''variant'' = Some (get_prop sp ''variant'')"
proof -
  have "SafeButton f sp = Elem ''Button'' (props_of (SafeButton f sp)) []"
    by (simp add: SafeButton_def)
  then show ?thesis
    using SafeButton_other [of _ f sp] SafeButton_dom [of f sp]
      SafeButton_className [of f sp] SafeButton_variant [of f sp]
    by blast
qed

theorem SafeButton_frame_witness:
  "''type'' \<noteq> ''className'' \<and> ''type'' \<noteq> ''variant''
   \<and> props_of (SafeButton cn
        [''className'' \<mapsto> Str ''w-4'', ''variant'' \<mapsto> Str ''secondary'',
         ''type'' \<mapsto> Str ''submit'', ''disabled'' \<mapsto> Other True]) ''type''
      = Some (Str ''submit'')
   \<and> props_of (SafeButton cn
        [''className'' \<mapsto> Str ''w-4'', ''variant'' \<mapsto> Str ''secondary'',
         ''type'' \<mapsto> Str ''submit'', ''disabled'' \<mapsto> Other True]) ''className''
      = Some (Str ''font-semibold transition-all w-4'')"
  using SafeButton_frame [of cn "[''className'' \<mapsto> Str ''w-4'', ''variant'' \<mapsto> Str ''secondary'',
         ''type'' \<mapsto> Str ''submit'', ''disabled'' \<mapsto> Other True]"]
  by (simp add: get_prop_def)

section \<open>Properties of the configuration object\<close>

lemma nextConfig_fields:
  "field ''images'' nextConfig
     = Some (CObj [(''domains'', CArr [CStr ''i.pravatar.cc'', CStr ''picsum.photos''])])"
  "field ''compiler'' nextConfig = Some (CObj [(''styledComponents'', CBool True)])"
  by (simp_all add: field_def nextConfig_def)

text \<open>
  C8, as stated: the allow-list holds exactly the two hosts and the configuration has
  exactly two compiler flags, both set. It fails: the \<open>compiler\<close> section has one flag.
\<close>

theorem config_compiler_flags_not_two:
  "\<not> (set (image_hosts nextConfig) = {''i.pravatar.cc'', ''picsum.photos''}
       \<and> length (image_hosts nextConfig) = 2
       \<and> length (compiler_flags nextConfig) = 2
       \<and> list_all snd (compiler_flags nextConfig))"
  by (simp add: compiler_flags_def nextConfig_fields own_flags_def)

text \<open>
  C8, amended: the allow-list is the two hosts \<open>i.pravatar.cc\<close> and \<open>picsum.photos\<close>; the
  object has exactly two flags, both set, \<open>reactStrictMode\<close> at the top and
  \<open>styledComponents\<close>, the one flag of the \<open>compiler\<close> section; and it has no property
  besides \<open>reactStrictMode\<close>, \<open>images\<close> and \<open>compiler\<close>.
\<close>

theorem config_declares:
  "image_hosts nextConfig = [''i.pravatar.cc'', ''picsum.photos'']
   \<and> all_flags nextConfig
       = [([''reactStrictMode''], True), ([''compiler'', ''styledComponents''], True)]
   \<and> compiler_flags nextConfig = [(''styledComponents'', True)]
   \<and> map fst (entries nextConfig) = [''reactStrictMode'', ''images'', ''compiler'']"
  by (simp add: image_hosts_def compiler_flags_def own_flags_def field_def nextConfig_def)

section \<open>Determinism\<close>

lemma effect_inv_initial: "effect_inv initial"
  by (simp add: effect_inv_def initial_def)

lemma effect_inv_run: "effect_inv s \<Longrightarrow> effect_inv (run_effects p s)"
  by (auto simp: effect_inv_def run_effects_def)

lemma effect_inv_fold: "effect_inv s \<Longrightarrow> effect_inv (fold run_effects hs s)"
  by (induction hs arbitrary: s) (simp_all add: effect_inv_run)

lemma effect_inv_after_commits: "effect_inv (after_commits hs)"
  by (simp add: after_commits_def effect_inv_fold effect_inv_initial)

lemma thumbnail_run:
  "effect_inv s \<Longrightarrow>
     thumbnail (run_effects p s) = ''https://picsum.photos/200/300?random='' @ id' p"
  by (auto simp: effect_inv_def run_effects_def)

lemma effect_deps_run: "effect_deps (run_effects p s) = Some (id' p)"
  by (simp add: run_effects_def)

lemma after_commits_snoc: "after_commits (hs @ [p]) = run_effects p (after_commits hs)"
  by (simp add: after_commits_def)

text \<open>The dependency array of a committed instance is the \<open>id\<close> it was last committed with.\<close>

lemma effect_deps_after_commits: "effect_deps (after_commits hs) = previous_id hs"
proof (cases hs rule: rev_cases)
  case Nil
  then show ?thesis
    by (simp add: after_commits_def initial_def previous_id_def)
next
  case (snoc hs' p)
  then show ?thesis
    by (simp add: after_commits_snoc effect_deps_run previous_id_def)
qed

text \<open>Its thumbnail is empty for a fresh mount and otherwise the URL of that \<open>id\<close>.\<close>

lemma thumbnail_after_commits:
  "thumbnail (after_commits hs)
     = (case previous_id hs of
          None \<Rightarrow> []
        | Some i \<Rightarrow> ''https://picsum.photos/200/300?random='' @ i)"
proof (cases hs rule: rev_cases)
  case Nil
  then show ?thesis
    by (simp add: after_commits_def initial_def previous_id_def)
next
  case (snoc hs' p)
  then show ?thesis
    by (simp add: after_commits_snoc thumbnail_run effect_inv_after_commits previous_id_def)
qed

text \<open>\<open>SafeButton\<close> sees its props only through what they read as.\<close>

lemma SafeButton_reads:
  assumes c: "get_prop sp ''className'' = get_prop sq ''className''"
    and v: "get_prop sp ''variant'' = get_prop sq ''variant''"
    and r: "\<And>k. k \<noteq> ''className'' \<Longrightarrow> k \<noteq> ''variant'' \<Longrightarrow> sp k = sq k"
  shows "SafeButton f sp = SafeButton f sq"
proof -
  have "props_of (SafeButton f sp) k = props_of (SafeButton f sq) k" for k
  proof (cases "k = ''className'' \<or> k = ''variant''")
    case True
    then show ?thesis
      using c v by (auto simp: SafeButton_className SafeButton_variant)
  next
    case False
    then show ?thesis
      using r [of k] by (simp add: SafeButton_other)
  qed
  then have "props_of (SafeButton f sp) = props_of (SafeButton f sq)"
    by (rule ext)
  moreover have "SafeButton f x = Elem ''Button'' (props_of (SafeButton f x)) []" for x
    by (simp add: SafeButton_def)
  ultimately show ?thesis
    by metis
qed

text \<open>
  C10, as stated: two runs of \<open>VideoCard\<close> with equal props and equal completion of the
  effect render identically. It fails with the effect pending in both: a fresh mount
  renders the empty \<open>src\<close>, an instance last committed with another \<open>id\<close> renders the
  URL of that \<open>id\<close>.
\<close>

theorem pending_render_depends_on_history:
  "(VideoCard_run []
      \<lparr>id' = ''1'', title = ''Intro'', channelName = ''Chan'', views = ''10K'',
      timePosted = ''2 days ago'', duration = ''3:45'', channelId = ''c1''\<rparr> False :: unit node)
   \<noteq> VideoCard_run
      [\<lparr>id' = ''7'', title = ''Old'', channelName = ''Chan'', views = ''9K'',
      timePosted = ''3 days ago'', duration = ''3:45'', channelId = ''c1''\<rparr>]
      \<lparr>id' = ''1'', title = ''Intro'', channelName = ''Chan'', views = ''10K'',
      timePosted = ''2 days ago'', duration = ''3:45'', channelId = ''c1''\<rparr> False"
proof
  let ?p = "\<lparr>id' = ''1'', title = ''Intro'', channelName = ''Chan'', views = ''10K'',
      timePosted = ''2 days ago'', duration = ''3:45'', channelId = ''c1''\<rparr>"
  let ?old = "\<lparr>id' = ''7'', title = ''Old'', channelName = ''Chan'', views = ''9K'',
      timePosted = ''3 days ago'', duration = ''3:45'', channelId = ''c1''\<rparr>"
  assume "(VideoCard_run [] ?p False :: unit node) = VideoCard_run [?old] ?p False"
  then have "img_srcs (VideoCard_run [] ?p False :: unit node)
               = img_srcs (VideoCard_run [?old] ?p False :: unit node)"
    by simp
  then show False
    by (simp add: VideoCard_run_def VideoCard_def img_srcs_jsx thumbnail_after_commits
                  previous_id_def)
qed

text \<open>
  C10, amended: the output of \<open>VideoCard\<close> is determined by its props, the completion of
  the effect and, while the effect is pending, the \<open>id\<close> the instance was last committed
  with (none for a fresh mount). Once the effect has completed, two runs with equal props
  render identically whatever their histories; with the effect pending they render
  identically when they were last committed with the same \<open>id\<close> or are both fresh. The
  output of \<open>SafeButton\<close> is determined by what its props read as: two props objects that
  read equal at \<open>className\<close> and \<open>variant\<close> and agree on every other key give identical
  outputs.
\<close>

theorem outputs_determined:
  "(VideoCard_run hs p True :: 'a node) = VideoCard_run hs' p True
   \<and> (previous_id hs = previous_id hs' \<longrightarrow>
        (VideoCard_run hs p False :: 'a node) = VideoCard_run hs' p False)
   \<and> (VideoCard_run hs p False :: 'a node)
       = VideoCard_jsx p
           (case previous_id hs of
              None \<Rightarrow> []
            | Some i \<Rightarrow> ''https://picsum.photos/200/300?random='' @ i)
   \<and> (get_prop sp ''className'' = get_prop sq ''className''
        \<and> get_prop sp ''variant'' = get_prop sq ''variant''
        \<and> (\<forall>k. k \<noteq> ''className'' \<and> k \<noteq> ''variant'' \<longrightarrow> sp k = sq k)
        \<longrightarrow> SafeButton f sp = (SafeButton f sq :: 'b node))"
proof -
  have completed: "(VideoCard_run hs p True :: 'a node) = VideoCard_run hs' p True"
    by (simp add: VideoCard_run_def VideoCard_def thumbnail_run effect_inv_after_commits)
  have pending: "(VideoCard_run xs p False :: 'a node)
      = VideoCard_jsx p
          (case previous_id xs of
             None \<Rightarrow> []
           | Some i \<Rightarrow> ''https://picsum.photos/200/300?random='' @ i)" for xs
    by (simp add: VideoCard_run_def VideoCard_def thumbnail_after_commits)
  have same: "previous_id hs = previous_id hs' \<longrightarrow>
      (VideoCard_run hs p False :: 'a node) = VideoCard_run hs' p False"
    by (simp add: pending)
  have button: "get_prop sp ''className'' = get_prop sq ''className''
        \<and> get_prop sp ''variant'' = get_prop sq ''variant''
        \<and> (\<forall>k. k \<noteq> ''className'' \<and> k \<noteq> ''variant'' \<longrightarrow> sp k = sq k)
        \<longrightarrow> SafeButton f sp = (SafeButton f sq :: 'b node)"
    using SafeButton_reads [of sp sq f] by blast
  show ?thesis
    using completed same pending [of hs] button by blast
qed

theorem outputs_determined_witness:
  "previous_id
      [\<lparr>id' = ''7'', title = ''Old'', channelName = ''Chan'', views = ''9K'',
      timePosted = ''3 days ago'', duration = ''3:45'', channelId = ''c1''\<rparr>]
     = previous_id
      [\<lparr>id' = ''1'', title = ''Intro'', channelName = ''Chan'', views = ''10K'',
      timePosted = ''2 days ago'', duration = ''3:45'', channelId = ''c1''\<rparr>,
       \<lparr>id' = ''7'', title = ''Old'', channelName = ''Chan'', views = ''9K'',
      timePosted = ''3 days ago'', duration = ''3:45'', channelId = ''c1''\<rparr>]
   \<and> (VideoCard_run
        [\<lparr>id' = ''7'', title = ''Old'', channelName = ''Chan'', views = ''9K'',
      timePosted = ''3 days ago'', duration = ''3:45'', channelId = ''c1''\<rparr>]
        \<lparr>id' = ''1'', title = ''Intro'', channelName = ''Chan'', views = ''10K'',
      timePosted = ''2 days ago'', duration = ''3:45'', channelId = ''c1''\<rparr> False :: unit node)
     = VideoCard_run
        [\<lparr>id' = ''1'', title = ''Intro'', channelName = ''Chan'', views = ''10K'',
      timePosted = ''2 days ago'', duration = ''3:45'', channelId = ''c1''\<rparr>,
         \<lparr>id' = ''7'', title = ''Old'', channelName = ''Chan'', views = ''9K'',
      timePosted = ''3 days ago'', duration = ''3:45'', channelId = ''c1''\<rparr>]
        \<lparr>id' = ''1'', title = ''Intro'', channelName = ''Chan'', views = ''10K'',
      timePosted = ''2 days ago'', duration = ''3:45'', channelId = ''c1''\<rparr> False
   \<and> (VideoCard_run []
        \<lparr>id' = ''1'', title = ''Intro'', channelName = ''Chan'', views = ''10K'',
      timePosted = ''2 days ago'', duration = ''3:45'', channelId = ''c1''\<rparr> True :: unit node)
     = VideoCard_run
        [\<lparr>id' = ''7'', title = ''Old'', channelName = ''Chan'', views = ''9K'',
      timePosted = ''3 days ago'', duration = ''3:45'', channelId = ''c1''\<rparr>]
        \<lparr>id' = ''1'', title = ''Intro'', channelName = ''Chan'', views = ''10K'',
      timePosted = ''2 days ago'', duration = ''3:45'', channelId = ''c1''\<rparr> True
   \<and> get_prop [''variant'' \<mapsto> Str ''ghost'', ''className'' \<mapsto> Undefined] ''className''
     = get_prop ([''variant'' \<mapsto> Str ''ghost''] :: unit obj) ''className''
   \<and> SafeButton cn [''variant'' \<mapsto> Str ''ghost'', ''className'' \<mapsto> Undefined]
     = (SafeButton cn [''variant'' \<mapsto> Str ''ghost''] :: unit node)"
proof -
  let ?p = "\<lparr>id' = ''1'', title = ''Intro'', channelName = ''Chan'', views = ''10K'',
      timePosted = ''2 days ago'', duration = ''3:45'', channelId = ''c1''\<rparr>"
  let ?old = "\<lparr>id' = ''7'', title = ''Old'', channelName = ''Chan'', views = ''9K'',
      timePosted = ''3 days ago'', duration = ''3:45'', channelId = ''c1''\<rparr>"
  let ?sp = "[''variant'' \<mapsto> Str ''ghost'', ''className'' \<mapsto> Undefined] :: unit obj"
  let ?sq = "[''variant'' \<mapsto> Str ''ghost''] :: unit obj"
  have h1: "previous_id [?old] = previous_id [?p, ?old]"
    by (simp add: previous_id_def)
  have h2: "get_prop ?sp ''className'' = get_prop ?sq ''className''"
    by (simp add: get_prop_def)
  have h3: "get_prop ?sp ''variant'' = get_prop ?sq ''variant''"
    by (simp add: get_prop_def)
  have h4: "\<forall>k. k \<noteq> ''className'' \<and> k \<noteq> ''variant'' \<longrightarrow> ?sp k = ?sq k"
    by simp
  have a: "(VideoCard_run [?old] ?p False :: unit node) = VideoCard_run [?p, ?old] ?p False"
    using h1 outputs_determined [of "[?old]" ?p "[?p, ?old]" ?sp ?sq cn, where ?'a = unit]
    by blast
  have b: "(VideoCard_run [] ?p True :: unit node) = VideoCard_run [?old] ?p True"
    using outputs_determined [of "[]" ?p "[?old]" ?sp ?sq cn, where ?'a = unit]
    by blast
  have c: "SafeButton cn ?sp = SafeButton cn ?sq"
    using h2 h3 h4 outputs_determined [of "[]" ?p "[]" ?sp ?sq cn, where ?'a = unit]
    by blast
  show ?thesis
    using h1 h2 a b c by simp
qed

end
